theory Spec2Isabelle
  imports Main "HOL-Library.Sublist"
begin

section \<open>Data model (models.py, schemas.py)\<close>

text \<open>
  The two tables of models.py. A table is the list of its rows in rowid order; the
  database is the pair of tables. Column \<open>id\<close> of either table is written
  \<open>User_id\<close> / \<open>Item_id\<close>; nullable columns are options.
\<close>

record User =
  User_id :: int
  User_username :: string
  User_full_name :: "string option"
  User_hashed_password :: string

record Item =
  Item_id :: int
  Item_title :: string
  Item_description :: "string option"
  Item_owner_id :: int

record database =
  users :: "User list"
  items :: "Item list"

text \<open>The pydantic models of schemas.py that cross the boundary of crud.py and auth.py.\<close>

record UserCreate =
  UserCreate_username :: string
  UserCreate_full_name :: "string option"
  UserCreate_password :: string

record UserOut =
  UserOut_id :: int
  UserOut_username :: string
  UserOut_full_name :: "string option"

record ItemCreate =
  ItemCreate_title :: string
  ItemCreate_description :: "string option"

record ItemUpdate =
  ItemUpdate_title :: "string option"
  ItemUpdate_description :: "string option"

text \<open>
  Everything the code raises: \<open>ValueError("owner not found")\<close> of create_item, the
  401 \<open>HTTPException\<close> of get_current_user with its detail, the IntegrityError of the
  unique constraint on \<open>users.username\<close>, pydantic's ValidationError, the IndexError of
  a list index, and the error SQLAlchemy raises when \<open>asc\<close>/\<open>desc\<close>/\<open>order_by\<close>
  are given something that is not a column expression.
\<close>

datatype error =
    OwnerNotFound
  | HTTP_401 string
  | IntegrityError
  | ValidationError
  | IndexError
  | OrderByError

section \<open>Field constraints (schemas.py)\<close>

definition ascii_uppercase :: string where
  "ascii_uppercase = ''ABCDEFGHIJKLMNOPQRSTUVWXYZ''"

definition ascii_lowercase :: string where
  "ascii_lowercase = ''abcdefghijklmnopqrstuvwxyz''"

definition digits :: string where
  "digits = ''0123456789''"

text \<open>\<open>str.lower()\<close>, on the ASCII letters (a \<open>char\<close> is a byte).\<close>

definition lower_char :: "char \<Rightarrow> char" where
  "lower_char c = (case map_of (zip ascii_uppercase ascii_lowercase) c of
                     Some l \<Rightarrow> l | None \<Rightarrow> c)"

definition lower :: "string \<Rightarrow> string" where
  "lower s = map lower_char s"

text \<open>\<open>sub in s\<close> for strings: \<open>sub\<close> occurs in \<open>s\<close> as a contiguous substring.\<close>

fun contains :: "string \<Rightarrow> string \<Rightarrow> bool" where
  "contains [] sub = (sub = [])"
| "contains (c # cs) sub = (prefix sub (c # cs) \<or> contains cs sub)"

text \<open>The character class of the pattern \<open>^[A-Za-z0-9 '\-_,\.]+$\<close> of \<open>ItemBase.title\<close>.\<close>

definition title_chars :: "char set" where
  "title_chars = set (ascii_uppercase @ ascii_lowercase @ digits @
                      [CHR '' '', CHR 0x27, CHR ''-'', CHR ''_'', CHR '','', CHR ''.''])"

definition title_pattern :: "string \<Rightarrow> bool" where
  "title_pattern v = (v \<noteq> [] \<and> list_all (\<lambda>c. c \<in> title_chars) v)"

definition banned :: "string list" where
  "banned = [''badword'']"

text \<open>The validator \<open>no_banned_words\<close>: True when the title is let through.\<close>

definition no_banned_words :: "string \<Rightarrow> bool" where
  "no_banned_words v = (\<not> list_ex (\<lambda>b. contains (lower v) b) banned)"

definition description_ok :: "string option \<Rightarrow> bool" where
  "description_ok d = (case d of None \<Rightarrow> True | Some s \<Rightarrow> length s \<le> 2000)"

text \<open>The constraints \<open>ItemBase\<close> puts on a title: length, pattern, then the validator.\<close>

definition ItemBase_title_ok :: "string \<Rightarrow> bool" where
  "ItemBase_title_ok v =
     (3 \<le> length v \<and> length v \<le> 200 \<and> title_pattern v \<and> no_banned_words v)"

text \<open>An \<open>ItemCreate\<close> object exists only if \<open>ItemBase\<close>'s validation passed.\<close>

definition ItemCreate_valid :: "ItemCreate \<Rightarrow> bool" where
  "ItemCreate_valid item_in =
     (ItemBase_title_ok (ItemCreate_title item_in) \<and>
      description_ok (ItemCreate_description item_in))"

text \<open>
  \<open>ItemUpdate\<close> declares its own fields: the title is optional with the two length
  bounds only, and the validator \<open>title_validator\<close> raises on a non-empty title of
  fewer than three characters.
\<close>

definition title_validator :: "string option \<Rightarrow> bool" where
  "title_validator v = (case v of None \<Rightarrow> True | Some s \<Rightarrow> \<not> (s \<noteq> [] \<and> length s < 3))"

definition ItemUpdate_valid :: "ItemUpdate \<Rightarrow> bool" where
  "ItemUpdate_valid item_in =
     ((case ItemUpdate_title item_in of None \<Rightarrow> True
        | Some s \<Rightarrow> 3 \<le> length s \<and> length s \<le> 200) \<and>
      title_validator (ItemUpdate_title item_in) \<and>
      description_ok (ItemUpdate_description item_in))"

text \<open>\<open>UserBase\<close>: username of 3 to 50 characters, full name of at most 120.\<close>

definition UserBase_valid :: "string \<Rightarrow> string option \<Rightarrow> bool" where
  "UserBase_valid username full_name =
     (3 \<le> length username \<and> length username \<le> 50 \<and>
      (case full_name of None \<Rightarrow> True | Some s \<Rightarrow> length s \<le> 120))"

definition UserCreate_valid :: "UserCreate \<Rightarrow> bool" where
  "UserCreate_valid user_in =
     (UserBase_valid (UserCreate_username user_in) (UserCreate_full_name user_in) \<and>
      6 \<le> length (UserCreate_password user_in))"

text \<open>\<open>UserOut.model_validate(user)\<close>: reads the attributes and validates them.\<close>

definition UserOut_model_validate :: "User \<Rightarrow> error + UserOut" where
  "UserOut_model_validate user =
     (if UserBase_valid (User_username user) (User_full_name user)
      then Inr \<lparr>UserOut_id = User_id user, UserOut_username = User_username user,
                UserOut_full_name = User_full_name user\<rparr>
      else Inl ValidationError)"

section \<open>Users (crud.py)\<close>

definition fake_hash_password :: "string \<Rightarrow> string" where
  "fake_hash_password password = ''fakehashed'' @ password"

text \<open>\<open>select(User).where(User.username == username)\<close>, then \<open>first()\<close>.\<close>

definition get_user_by_username :: "database \<Rightarrow> string \<Rightarrow> User option" where
  "get_user_by_username db username =
     find (\<lambda>u. User_username u = username) (users db)"

text \<open>
  The key the engine gives a new row of an \<open>INTEGER PRIMARY KEY\<close> column: one more
  than the largest key of the table, 1 in an empty table.
\<close>

definition next_id :: "int list \<Rightarrow> int" where
  "next_id ids = foldr max ids 0 + 1"

text \<open>
  create_user: the INSERT fails on the unique constraint of \<open>users.username\<close>
  (models.py) and nothing is stored; otherwise the row is appended.
\<close>

definition create_user :: "database \<Rightarrow> UserCreate \<Rightarrow> (error + User) \<times> database" where
  "create_user db user_in =
     (let user = \<lparr>User_id = next_id (map User_id (users db)),
                  User_username = UserCreate_username user_in,
                  User_full_name = UserCreate_full_name user_in,
                  User_hashed_password = fake_hash_password (UserCreate_password user_in)\<rparr>
      in if list_ex (\<lambda>u. User_username u = User_username user) (users db)
         then (Inl IntegrityError, db)
         else (Inr user, db\<lparr>users := users db @ [user]\<rparr>))"

section \<open>Tokens (auth.py)\<close>

text \<open>
  authenticate_user_and_get_token: the stored-hash comparison returns from inside the
  session block; every other path falls through to the fixed pair.
\<close>

definition authenticate_user_and_get_token :: "database \<Rightarrow> string \<Rightarrow> string \<Rightarrow> string option" where
  "authenticate_user_and_get_token db username password =
     (let from_store =
            (case get_user_by_username db username of
               None \<Rightarrow> None
             | Some user \<Rightarrow>
                 if User_hashed_password user = fake_hash_password password
                 then Some (''token-'' @ username) else None)
      in case from_store of
           Some token \<Rightarrow> Some token
         | None \<Rightarrow>
             if username = ''alice'' \<and> password = ''secret''
             then Some (''token-'' @ username) else None)"

text \<open>\<open>s.split(sep, 1)\<close> for a one-character separator: cut at its first occurrence.\<close>

fun split1 :: "char \<Rightarrow> string \<Rightarrow> string list" where
  "split1 sep [] = [[]]"
| "split1 sep (c # cs) =
     (if c = sep then [[], cs]
      else (case split1 sep cs of
              [] \<Rightarrow> [[c]]
            | h # t \<Rightarrow> (c # h) # t))"

text \<open>\<open>xs[1]\<close>, which raises IndexError on a list of fewer than two elements.\<close>

definition index1 :: "'a list \<Rightarrow> error + 'a" where
  "index1 xs = (case xs of _ # x # _ \<Rightarrow> Inr x | _ \<Rightarrow> Inl IndexError)"

definition get_current_user :: "database \<Rightarrow> string \<Rightarrow> error + UserOut" where
  "get_current_user db token =
     (if token = [] \<or> \<not> prefix ''token-'' token
      then Inl (HTTP_401 ''Invalid authentication credentials'')
      else case index1 (split1 CHR ''-'' token) of
             Inl e \<Rightarrow> Inl e
           | Inr username \<Rightarrow>
               (case get_user_by_username db username of
                  None \<Rightarrow>
                    if username = ''alice''
                    then Inr \<lparr>UserOut_id = 0, UserOut_username = ''alice'',
                              UserOut_full_name = Some ''Alice Dev''\<rparr>
                    else Inl (HTTP_401 ''User not found'')
                | Some user \<Rightarrow> UserOut_model_validate user))"

section \<open>Items (crud.py)\<close>

text \<open>\<open>first()\<close> of a result: its first row, or None.\<close>

definition first :: "'a list \<Rightarrow> 'a option" where
  "first rows = (case rows of [] \<Rightarrow> None | r # _ \<Rightarrow> Some r)"

text \<open>
  \<open>select(Item).join(User)\<close>: the inner join on the foreign key
  \<open>items.owner_id = users.id\<close>, items in table order.
\<close>

definition join_User :: "database \<Rightarrow> (Item \<times> User) list" where
  "join_User db =
     concat (map (\<lambda>i. map (Pair i) (filter (\<lambda>u. User_id u = Item_owner_id i) (users db)))
                 (items db))"

definition create_item :: "database \<Rightarrow> ItemCreate \<Rightarrow> string \<Rightarrow> (error + Item) \<times> database" where
  "create_item db item_in owner_username =
     (case get_user_by_username db owner_username of
        None \<Rightarrow> (Inl OwnerNotFound, db)
      | Some owner \<Rightarrow>
          let item = \<lparr>Item_id = next_id (map Item_id (items db)),
                      Item_title = ItemCreate_title item_in,
                      Item_description = ItemCreate_description item_in,
                      Item_owner_id = User_id owner\<rparr>
          in (Inr item, db\<lparr>items := items db @ [item]\<rparr>))"

definition get_item :: "database \<Rightarrow> int \<Rightarrow> Item option" where
  "get_item db item_id = find (\<lambda>i. Item_id i = item_id) (items db)"

text \<open>
  The query update_item and delete_item share:
  \<open>select(Item).join(User).where(Item.id == item_id, User.username == owner_username)\<close>.
\<close>

definition select_owned :: "database \<Rightarrow> int \<Rightarrow> string \<Rightarrow> Item list" where
  "select_owned db item_id owner_username =
     map fst (filter (\<lambda>(i, u). Item_id i = item_id \<and> User_username u = owner_username)
                     (join_User db))"

text \<open>
  update_item: the attribute writes, then the UPDATE of the row with the item's primary
  key. The function returns the object it wrote to.
\<close>

definition update_item ::
  "database \<Rightarrow> int \<Rightarrow> ItemUpdate \<Rightarrow> string \<Rightarrow> Item option \<times> database" where
  "update_item db item_id item_in owner_username =
     (case first (select_owned db item_id owner_username) of
        None \<Rightarrow> (None, db)
      | Some item \<Rightarrow>
          let item1 = (case ItemUpdate_title item_in of
                         None \<Rightarrow> item | Some t \<Rightarrow> item\<lparr>Item_title := t\<rparr>);
              item2 = (case ItemUpdate_description item_in of
                         None \<Rightarrow> item1 | Some d \<Rightarrow> item1\<lparr>Item_description := Some d\<rparr>)
          in (Some item2,
              db\<lparr>items :=
                   map (\<lambda>row. if Item_id row = Item_id item
                               then row\<lparr>Item_title := Item_title item2,
                                        Item_description := Item_description item2\<rparr>
                               else row)
                       (items db)\<rparr>))"

definition delete_item :: "database \<Rightarrow> int \<Rightarrow> string \<Rightarrow> bool \<times> database" where
  "delete_item db item_id owner_username =
     (case first (select_owned db item_id owner_username) of
        None \<Rightarrow> (False, db)
      | Some item \<Rightarrow>
          (True, db\<lparr>items := filter (\<lambda>row. Item_id row \<noteq> Item_id item) (items db)\<rparr>))"

section \<open>The list query (crud.py, get_items)\<close>

text \<open>
  The LIKE operator of the engine, pattern first: \<open>%\<close> stands for any run of characters,
  \<open>_\<close> for any one character, and any other character for itself, ASCII letters in
  either case. No escape character is declared by the query.
\<close>

fun like :: "string \<Rightarrow> string \<Rightarrow> bool" where
  "like [] s = (s = [])"
| "like (p # ps) [] = (p = CHR ''%'' \<and> like ps [])"
| "like (p # ps) (c # cs) =
     (if p = CHR ''%'' then like ps (c # cs) \<or> like (p # ps) cs
      else (p = CHR ''_'' \<or> lower_char p = lower_char c) \<and> like ps cs)"

text \<open>The two characters that LIKE does not take literally.\<close>

definition wildcard :: "char \<Rightarrow> bool" where
  "wildcard c = (c = CHR ''%'' \<or> c = CHR ''_'')"

text \<open>
  \<open>column.ilike(term)\<close>, rendered as \<open>lower(column) LIKE lower(term)\<close>; on a NULL
  column the comparison is NULL and the row is not selected.
\<close>

definition ilike :: "string option \<Rightarrow> string \<Rightarrow> bool" where
  "ilike v term = (case v of None \<Rightarrow> False | Some s \<Rightarrow> like (lower term) (lower s))"

text \<open>The WHERE clause of both queries: absent when \<open>q\<close> is None or empty.\<close>

definition search_filter :: "string option \<Rightarrow> Item \<Rightarrow> bool" where
  "search_filter q item =
     (case q of
        None \<Rightarrow> True
      | Some s \<Rightarrow>
          if s = [] then True
          else (let term = ''%'' @ s @ ''%''
                in ilike (Some (Item_title item)) term \<or> ilike (Item_description item) term))"

text \<open>
  \<open>hasattr(models.Item, name)\<close> and \<open>getattr(models.Item, name)\<close>. The class body of
  \<open>Item\<close> binds \<open>__tablename__\<close> to a plain string, four names to columns and
  \<open>owner\<close> to a relationship. Every other attribute of the class is inherited from
  \<open>Base = declarative_base()\<close> and from \<open>object\<close>, outside this repository: their
  names are the parameter \<open>inherited\<close>, and none of them is a column or a relationship.
\<close>

datatype column = Col_id | Col_title | Col_description | Col_owner_id

datatype attribute = Column column | Relationship | Other

definition Item_class_body :: "(string \<times> attribute) list" where
  "Item_class_body =
     [(''__tablename__'', Other),
      (''id'', Column Col_id),
      (''title'', Column Col_title),
      (''description'', Column Col_description),
      (''owner_id'', Column Col_owner_id),
      (''owner'', Relationship)]"

definition Item_getattr :: "string list \<Rightarrow> string \<Rightarrow> attribute option" where
  "Item_getattr inherited name =
     (case map_of Item_class_body name of
        Some a \<Rightarrow> Some a
      | None \<Rightarrow> if name \<in> set inherited then Some Other else None)"

text \<open>The lines under \<open># sorting\<close>: \<open>Item.id\<close> unless the class has the attribute.\<close>

definition sort_col :: "string list \<Rightarrow> string option \<Rightarrow> attribute" where
  "sort_col inherited sort_by =
     (case sort_by of
        None \<Rightarrow> Column Col_id
      | Some name \<Rightarrow>
          (case Item_getattr inherited name of
             Some a \<Rightarrow> a
           | None \<Rightarrow> Column Col_id))"

text \<open>
  Values of the engine and their order in ORDER BY: NULL first, then integers, then
  text compared byte by byte.
\<close>

datatype sqlval = Null | Integer int | Text string

fun text_le :: "string \<Rightarrow> string \<Rightarrow> bool" where
  "text_le [] t = True"
| "text_le (a # as) [] = False"
| "text_le (a # as) (b # bs) =
     ((of_char a :: nat) < of_char b \<or> (a = b \<and> text_le as bs))"

fun sql_le :: "sqlval \<Rightarrow> sqlval \<Rightarrow> bool" where
  "sql_le Null w = True"
| "sql_le (Integer a) Null = False"
| "sql_le (Integer a) (Integer b) = (a \<le> b)"
| "sql_le (Integer a) (Text t) = True"
| "sql_le (Text s) (Text t) = text_le s t"
| "sql_le (Text s) w = False"

fun column_value :: "column \<Rightarrow> Item \<Rightarrow> sqlval" where
  "column_value Col_id item = Integer (Item_id item)"
| "column_value Col_title item = Text (Item_title item)"
| "column_value Col_description item =
     (case Item_description item of None \<Rightarrow> Null | Some d \<Rightarrow> Text d)"
| "column_value Col_owner_id item = Integer (Item_owner_id item)"

text \<open>
  What \<open>asc(sort_col)\<close> / \<open>desc(sort_col)\<close> order by: a column by its value, the
  relationship by its join condition, and anything else is refused by SQLAlchemy.
\<close>

fun order_expr :: "attribute \<Rightarrow> error + (Item \<times> User \<Rightarrow> sqlval)" where
  "order_expr (Column c) = Inr (\<lambda>(i, u). column_value c i)"
| "order_expr Relationship =
     Inr (\<lambda>(i, u). Integer (if User_id u = Item_owner_id i then 1 else 0))"
| "order_expr Other = Inl OrderByError"

text \<open>Sorting by insertion; rows with equal keys stay in the order of the scan.\<close>

fun insort_by :: "('a \<Rightarrow> 'a \<Rightarrow> bool) \<Rightarrow> 'a \<Rightarrow> 'a list \<Rightarrow> 'a list" where
  "insort_by le x [] = [x]"
| "insort_by le x (y # ys) = (if le x y then x # y # ys else y # insort_by le x ys)"

definition order_by :: "('a \<Rightarrow> sqlval) \<Rightarrow> bool \<Rightarrow> 'a list \<Rightarrow> 'a list" where
  "order_by key descending rows =
     foldr (insort_by (\<lambda>r s. if descending then sql_le (key s) (key r)
                              else sql_le (key r) (key s)))
           rows []"

text \<open>OFFSET and LIMIT of the engine: a negative offset is 0, a negative limit is none.\<close>

definition sql_offset :: "int \<Rightarrow> 'a list \<Rightarrow> 'a list" where
  "sql_offset offset rows = drop (nat offset) rows"

definition sql_limit :: "int \<Rightarrow> 'a list \<Rightarrow> 'a list" where
  "sql_limit limit rows = (if limit < 0 then rows else take (nat limit) rows)"

text \<open>\<open>unique()\<close>: every object once, at its first position.\<close>

fun unique :: "'a list \<Rightarrow> 'a list \<Rightarrow> 'a list" where
  "unique seen [] = []"
| "unique seen (x # xs) =
     (if x \<in> set seen then unique seen xs else x # unique (x # seen) xs)"

definition get_items ::
  "string list \<Rightarrow> database \<Rightarrow> string option \<Rightarrow> int \<Rightarrow> int \<Rightarrow> string option \<Rightarrow> string option
     \<Rightarrow> error + (Item list \<times> nat)" where
  "get_items inherited db q limit offset sort_by order =
     (case order_expr (sort_col inherited sort_by) of
        Inl e \<Rightarrow> Inl e
      | Inr key \<Rightarrow>
          let query = order_by key (order = Some ''desc'')
                        (filter (\<lambda>(i, u). search_filter q i) (join_User db));
              total = length (filter (search_filter q) (items db));
              res = sql_limit limit (sql_offset offset query)
          in Inr (unique [] (map fst res), total))"

section \<open>Integrity of the tables\<close>

text \<open>
  The constraints of models.py that the claims rely on: both primary keys and the
  username are unique.
\<close>

definition wf_db :: "database \<Rightarrow> bool" where
  "wf_db db =
     (distinct (map User_id (users db)) \<and>
      distinct (map User_username (users db)) \<and>
      distinct (map Item_id (items db)))"

text \<open>The owner of an item: the user its foreign key points to.\<close>

definition owned_by :: "database \<Rightarrow> Item \<Rightarrow> User \<Rightarrow> bool" where
  "owned_by db item owner =
     (item \<in> set (items db) \<and> owner \<in> set (users db) \<and> Item_owner_id item = User_id owner)"

section \<open>A small database\<close>

text \<open>
  Two users and two items, used to run the operations on concrete rows: bob owns item 1,
  and the stored user alice, whose password is not the fixed one, owns item 2.
\<close>

definition user_bob :: User where
  "user_bob = \<lparr>User_id = 1, User_username = ''bob'', User_full_name = None,
               User_hashed_password = ''fakehashedhunter22''\<rparr>"

definition user_alice :: User where
  "user_alice = \<lparr>User_id = 2, User_username = ''alice'', User_full_name = Some ''Alice A'',
                 User_hashed_password = ''fakehashedwonderland''\<rparr>"

definition item_1 :: Item where
  "item_1 = \<lparr>Item_id = 1, Item_title = ''abc'', Item_description = None, Item_owner_id = 1\<rparr>"

definition item_2 :: Item where
  "item_2 = \<lparr>Item_id = 2, Item_title = ''Blue Widget'',
             Item_description = Some ''A widget, in blue'', Item_owner_id = 2\<rparr>"

definition example_db :: database where
  "example_db = \<lparr>users = [user_bob, user_alice], items = [item_1, item_2]\<rparr>"

definition dashed_user_in :: UserCreate where
  "dashed_user_in = \<lparr>UserCreate_username = ''a-b--c'', UserCreate_full_name = None,
                     UserCreate_password = ''s3cret-pw''\<rparr>"

definition dashed_user :: User where
  "dashed_user = \<lparr>User_id = 3, User_username = ''a-b--c'', User_full_name = None,
                  User_hashed_password = ''fakehasheds3cret-pw''\<rparr>"

definition empty_db :: database where
  "empty_db = \<lparr>users = [], items = []\<rparr>"

text \<open>
  The constraints of \<open>ItemBase\<close> on the title, for every stored item.
\<close>

definition titles_ok :: "database \<Rightarrow> bool" where
  "titles_ok db = list_all (\<lambda>row. ItemBase_title_ok (Item_title row)) (items db)"

definition banned_patch :: ItemUpdate where
  "banned_patch = \<lparr>ItemUpdate_title = Some ''Nice BadWord'', ItemUpdate_description = None\<rparr>"

section \<open>Authentication\<close>

lemma find_append_new:
  "\<not> list_ex P xs \<Longrightarrow> P x \<Longrightarrow> find P (xs @ [x]) = Some x"
  by (induction xs) auto

lemma get_user_after_create_user:
  assumes "create_user db user_in = (Inr user, db')"
  shows "get_user_by_username db' (UserCreate_username user_in) = Some user"
    and "User_username user = UserCreate_username user_in"
    and "User_full_name user = UserCreate_full_name user_in"
    and "User_hashed_password user = fake_hash_password (UserCreate_password user_in)"
  using assms
  by (auto simp: create_user_def get_user_by_username_def Let_def find_append_new
           split: if_splits)

lemma split1_token: "split1 CHR ''-'' (''token-'' @ u) = [''token'', u]"
  by simp

text \<open>
  Claim C7. The pair \<open>alice\<close>/\<open>secret\<close> is given a token when no stored user
  matches it, and in the same state any other pair that no stored user matches (no row
  with that username and the hash of that password) is given none.
\<close>

theorem fallback_pair_only:
  "(\<not> list_ex (\<lambda>u. User_username u = ''alice'' \<and>
                     User_hashed_password u = fake_hash_password ''secret'') (users db) \<longrightarrow>
      authenticate_user_and_get_token db ''alice'' ''secret'' = Some ''token-alice'') \<and>
   ((username, password) \<noteq> (''alice'', ''secret'') \<longrightarrow>
    \<not> list_ex (\<lambda>u. User_username u = username \<and>
                     User_hashed_password u = fake_hash_password password) (users db) \<longrightarrow>
      authenticate_user_and_get_token db username password = None)"
proof (intro conjI impI)
  show "authenticate_user_and_get_token db ''alice'' ''secret'' = Some ''token-alice''"
    by (simp add: authenticate_user_and_get_token_def split: option.splits)
next
  assume ne: "(username, password) \<noteq> (''alice'', ''secret'')"
    and nomatch: "\<not> list_ex (\<lambda>u. User_username u = username \<and>
                     User_hashed_password u = fake_hash_password password) (users db)"
  have "User_hashed_password user \<noteq> fake_hash_password password"
    if "get_user_by_username db username = Some user" for user
  proof -
    from that have "user \<in> set (users db)" "User_username user = username"
      by (auto simp: get_user_by_username_def find_Some_iff)
    with nomatch show ?thesis by (auto simp: list_ex_iff)
  qed
  with ne show "authenticate_user_and_get_token db username password = None"
    by (auto simp: authenticate_user_and_get_token_def split: option.splits)
qed

theorem fallback_pair_only_witness:
  "\<not> list_ex (\<lambda>u. User_username u = ''alice'' \<and>
                    User_hashed_password u = fake_hash_password ''secret'') (users empty_db)
   \<and> authenticate_user_and_get_token empty_db ''alice'' ''secret'' = Some ''token-alice''
   \<and> (''alice'', ''Secret'') \<noteq> (''alice'', ''secret'')
   \<and> \<not> list_ex (\<lambda>u. User_username u = ''alice'' \<and>
                    User_hashed_password u = fake_hash_password ''Secret'') (users empty_db)
   \<and> authenticate_user_and_get_token empty_db ''alice'' ''Secret'' = None"
proof -
  have h1: "\<not> list_ex (\<lambda>u. User_username u = ''alice'' \<and>
                    User_hashed_password u = fake_hash_password ''secret'') (users empty_db)"
    by (simp add: empty_db_def)
  have h2: "(''alice'', ''Secret'') \<noteq> (''alice'', ''secret'')"
    by simp
  have h3: "\<not> list_ex (\<lambda>u. User_username u = ''alice'' \<and>
                    User_hashed_password u = fake_hash_password ''Secret'') (users empty_db)"
    by (simp add: empty_db_def)
  from fallback_pair_only [of empty_db "''alice''" "''Secret''"] h1 h2 h3
  show ?thesis by blast
qed

text \<open>
  Claim C10. When a user named \<open>alice\<close> is stored and the stored hash is not the hash of
  \<open>secret\<close>, the pair \<open>alice\<close>/\<open>secret\<close> is still given a token: the fixed pair is
  compared after the stored hash failed, whatever the stored row holds.
\<close>

theorem fallback_beats_stored_alice:
  assumes "get_user_by_username db ''alice'' = Some user"
    and "User_hashed_password user \<noteq> fake_hash_password ''secret''"
  shows "authenticate_user_and_get_token db ''alice'' ''secret'' = Some ''token-alice''"
  using assms by (simp add: authenticate_user_and_get_token_def)

theorem fallback_beats_stored_alice_witness:
  "get_user_by_username example_db ''alice'' = Some user_alice
   \<and> User_hashed_password user_alice \<noteq> fake_hash_password ''secret''
   \<and> authenticate_user_and_get_token example_db ''alice'' ''secret'' = Some ''token-alice''"
proof -
  have h1: "get_user_by_username example_db ''alice'' = Some user_alice"
    by (simp add: get_user_by_username_def example_db_def user_bob_def user_alice_def)
  have h2: "User_hashed_password user_alice \<noteq> fake_hash_password ''secret''"
    by (simp add: user_alice_def fake_hash_password_def)
  from fallback_beats_stored_alice [OF h1 h2] h1 h2 show ?thesis by blast
qed

text \<open>
  Claim C2. After a user was registered (create_user succeeded on a valid
  \<open>UserCreate\<close>, whose username has 3 to 50 characters of any kind), authenticating with
  the same username and password gives the token \<open>token-\<close> followed by the username;
  splitting that token at its first \<open>-\<close> gives back the whole username, dashes
  included, and get_current_user resolves the token to the registered user.
\<close>

theorem token_roundtrip:
  assumes "UserCreate_valid user_in"
    and "create_user db user_in = (Inr user, db')"
  shows "authenticate_user_and_get_token db' (UserCreate_username user_in)
           (UserCreate_password user_in) = Some (''token-'' @ UserCreate_username user_in)
       \<and> index1 (split1 CHR ''-'' (''token-'' @ UserCreate_username user_in))
           = Inr (UserCreate_username user_in)
       \<and> get_current_user db' (''token-'' @ UserCreate_username user_in)
           = Inr \<lparr>UserOut_id = User_id user,
                   UserOut_username = UserCreate_username user_in,
                   UserOut_full_name = UserCreate_full_name user_in\<rparr>"
proof -
  note u = get_user_after_create_user [OF assms(2)]
  have a: "authenticate_user_and_get_token db' (UserCreate_username user_in)
           (UserCreate_password user_in) = Some (''token-'' @ UserCreate_username user_in)"
    by (simp add: authenticate_user_and_get_token_def u)
  have s: "index1 (split1 CHR ''-'' (''token-'' @ UserCreate_username user_in))
           = Inr (UserCreate_username user_in)"
    by (simp add: index1_def)
  have v: "UserBase_valid (User_username user) (User_full_name user)"
    using assms(1) by (simp add: UserCreate_valid_def u)
  have g: "get_current_user db' (''token-'' @ UserCreate_username user_in)
           = Inr \<lparr>UserOut_id = User_id user,
                   UserOut_username = UserCreate_username user_in,
                   UserOut_full_name = UserCreate_full_name user_in\<rparr>"
    unfolding get_current_user_def s
    using v by (simp add: u UserOut_model_validate_def)
  from a s g show ?thesis by simp
qed

theorem token_roundtrip_witness:
  "UserCreate_valid dashed_user_in
   \<and> create_user example_db dashed_user_in
       = (Inr dashed_user, example_db\<lparr>users := users example_db @ [dashed_user]\<rparr>)
   \<and> authenticate_user_and_get_token (example_db\<lparr>users := users example_db @ [dashed_user]\<rparr>)
        ''a-b--c'' ''s3cret-pw'' = Some ''token-a-b--c''
   \<and> index1 (split1 CHR ''-'' ''token-a-b--c'') = Inr ''a-b--c''
   \<and> get_current_user (example_db\<lparr>users := users example_db @ [dashed_user]\<rparr>) ''token-a-b--c''
       = Inr \<lparr>UserOut_id = 3, UserOut_username = ''a-b--c'', UserOut_full_name = None\<rparr>"
proof -
  have h1: "UserCreate_valid dashed_user_in"
    by (simp add: UserCreate_valid_def UserBase_valid_def dashed_user_in_def)
  have h2: "create_user example_db dashed_user_in
       = (Inr dashed_user, example_db\<lparr>users := users example_db @ [dashed_user]\<rparr>)"
    by (simp add: create_user_def dashed_user_in_def dashed_user_def example_db_def
          user_bob_def user_alice_def next_id_def fake_hash_password_def Let_def)
  from token_roundtrip [OF h1 h2] h1 h2 show ?thesis
    by (simp add: dashed_user_in_def dashed_user_def)
qed

section \<open>Ownership\<close>

lemma join_User_iff:
  "(i, u) \<in> set (join_User db) \<longleftrightarrow>
     i \<in> set (items db) \<and> u \<in> set (users db) \<and> User_id u = Item_owner_id i"
  by (auto simp: join_User_def)

lemma distinct_map_eqD:
  "distinct (map f xs) \<Longrightarrow> x \<in> set xs \<Longrightarrow> y \<in> set xs \<Longrightarrow> f x = f y \<Longrightarrow> x = y"
  by (meson distinct_map inj_on_eq_iff)

lemma select_owned_missing:
  "item_id \<notin> Item_id ` set (items db) \<Longrightarrow> select_owned db item_id caller = []"
  by (auto simp: select_owned_def filter_empty_conv join_User_iff)

lemma select_owned_foreign:
  assumes "wf_db db" and "owned_by db item owner" and "caller \<noteq> User_username owner"
  shows "select_owned db (Item_id item) caller = []"
proof -
  have "User_username u \<noteq> caller"
    if "(i, u) \<in> set (join_User db)" and "Item_id i = Item_id item" for i u
  proof -
    from that(1) have iu: "i \<in> set (items db)" "u \<in> set (users db)"
      "User_id u = Item_owner_id i"
      by (simp_all add: join_User_iff)
    from assms(1,2) iu(1) that(2) have "i = item"
      by (auto simp: wf_db_def owned_by_def dest: distinct_map_eqD)
    with assms(1,2) iu(2,3) have "u = owner"
      by (auto simp: wf_db_def owned_by_def dest: distinct_map_eqD)
    with assms(3) show ?thesis by simp
  qed
  then show ?thesis
    by (auto simp: select_owned_def filter_empty_conv)
qed

text \<open>
  Claim C1. For an item owned by a user and a caller with another username, update_item
  returns None and delete_item returns False, and the tables are left as they were:
  exactly what both return for an id that no item has.
\<close>

theorem foreign_item_not_found:
  assumes "wf_db db" and "owned_by db item owner" and "caller \<noteq> User_username owner"
    and "missing \<notin> Item_id ` set (items db)"
  shows "update_item db (Item_id item) item_in caller = (None, db)
       \<and> delete_item db (Item_id item) caller = (False, db)
       \<and> update_item db missing item_in caller = (None, db)
       \<and> delete_item db missing caller = (False, db)"
  using select_owned_foreign [OF assms(1,2,3)] select_owned_missing [OF assms(4)]
  by (simp add: update_item_def delete_item_def first_def)

lemma wf_example_db: "wf_db example_db"
  by (simp add: wf_db_def example_db_def item_1_def item_2_def user_bob_def user_alice_def)

lemma item_1_owned_by_bob: "owned_by example_db item_1 user_bob"
  by (simp add: owned_by_def example_db_def item_1_def user_bob_def)

theorem foreign_item_not_found_witness:
  "wf_db example_db \<and> owned_by example_db item_1 user_bob
   \<and> ''alice'' \<noteq> User_username user_bob
   \<and> 7 \<notin> Item_id ` set (items example_db)
   \<and> update_item example_db (Item_id item_1)
        \<lparr>ItemUpdate_title = Some ''Taken over'', ItemUpdate_description = None\<rparr> ''alice''
       = (None, example_db)
   \<and> delete_item example_db (Item_id item_1) ''alice'' = (False, example_db)
   \<and> update_item example_db 7
        \<lparr>ItemUpdate_title = Some ''Taken over'', ItemUpdate_description = None\<rparr> ''alice''
       = (None, example_db)
   \<and> delete_item example_db 7 ''alice'' = (False, example_db)"
proof -
  have h3: "''alice'' \<noteq> User_username user_bob"
    by (simp add: user_bob_def)
  have h4: "7 \<notin> Item_id ` set (items example_db)"
    by (simp add: example_db_def item_1_def item_2_def)
  from foreign_item_not_found [OF wf_example_db item_1_owned_by_bob h3 h4]
    wf_example_db item_1_owned_by_bob h3 h4
  show ?thesis by blast
qed

lemma filter_key_unique:
  "distinct (map f xs) \<Longrightarrow> x \<in> set xs \<Longrightarrow> filter (\<lambda>y. f y = f x) xs = [x]"
proof (induction xs)
  case Nil
  then show ?case by simp
next
  case (Cons a xs)
  show ?case
  proof (cases "a = x")
    case True
    from Cons.prems True have "f x \<notin> f ` set xs" by simp
    then have "\<forall>y \<in> set xs. f y \<noteq> f x" by (metis imageI)
    then have "filter (\<lambda>y. f y = f x) xs = []" by (simp add: filter_empty_conv)
    with True show ?thesis by simp
  next
    case False
    with Cons.prems have "x \<in> set xs" "f a \<noteq> f x" by auto
    with Cons show ?thesis by simp
  qed
qed

lemma select_owned_concat:
  "select_owned db item_id caller =
     concat (map (\<lambda>i. map (\<lambda>u. i)
                    (filter (\<lambda>u. User_id u = Item_owner_id i \<and> User_username u = caller)
                            (users db)))
                 (filter (\<lambda>i. Item_id i = item_id) (items db)))"
proof -
  have "map fst (filter (\<lambda>(i, u). Item_id i = item_id \<and> User_username u = caller)
          (concat (map (\<lambda>i. map (Pair i) (filter (\<lambda>u. User_id u = Item_owner_id i) us)) xs)))
      = concat (map (\<lambda>i. map (\<lambda>u. i)
                    (filter (\<lambda>u. User_id u = Item_owner_id i \<and> User_username u = caller) us))
                 (filter (\<lambda>i. Item_id i = item_id) xs))"
    for us :: "User list" and xs :: "Item list"
    by (induction xs) (auto simp: filter_map comp_def filter_empty_conv)
  then show ?thesis by (simp add: select_owned_def join_User_def)
qed

lemma select_owned_own:
  assumes "wf_db db" and "owned_by db item owner"
  shows "select_owned db (Item_id item) (User_username owner) = [item]"
proof -
  from assms have i: "filter (\<lambda>i. Item_id i = Item_id item) (items db) = [item]"
    by (simp add: wf_db_def owned_by_def filter_key_unique)
  from assms have "filter (\<lambda>u. User_id u = User_id owner) (users db) = [owner]"
    by (simp add: wf_db_def owned_by_def filter_key_unique)
  moreover have "filter (\<lambda>u. User_id u = User_id owner \<and> User_username u = User_username owner)
        (users db)
      = filter (\<lambda>u. User_id u = User_id owner) (users db)"
    using assms by (intro filter_cong) (auto simp: wf_db_def owned_by_def dest: distinct_map_eqD)
  ultimately have u: "filter (\<lambda>u. User_id u = Item_owner_id item \<and>
      User_username u = User_username owner) (users db) = [owner]"
    using assms(2) by (simp add: owned_by_def)
  show ?thesis by (simp add: select_owned_concat i u)
qed

text \<open>
  Claim C9. For an item owned by the caller, update_item returns the item with the
  title replaced only if the patch has a title and the description replaced only if the
  patch has a description; the id and the owner are the old ones. The stored row is
  replaced by that item, and no other row and no user changes.
\<close>

theorem update_item_partial:
  assumes "wf_db db" and "owned_by db item owner"
  shows "\<exists>item' db'.
           update_item db (Item_id item) item_in (User_username owner) = (Some item', db')
         \<and> items db' = map (\<lambda>row. if row = item then item' else row) (items db)
         \<and> users db' = users db
         \<and> Item_id item' = Item_id item
         \<and> Item_owner_id item' = Item_owner_id item
         \<and> Item_title item' =
             (case ItemUpdate_title item_in of None \<Rightarrow> Item_title item | Some t \<Rightarrow> t)
         \<and> Item_description item' =
             (case ItemUpdate_description item_in of
                None \<Rightarrow> Item_description item | Some d \<Rightarrow> Some d)"
proof -
  have rows: "(Item_id row = Item_id item) = (row = item)" if "row \<in> set (items db)" for row
    using assms that by (auto simp: wf_db_def owned_by_def dest: distinct_map_eqD)
  have m: "map (\<lambda>row. if Item_id row = Item_id item then g row else row) (items db)
         = map (\<lambda>row. if row = item then g item else row) (items db)" for g :: "Item \<Rightarrow> Item"
    by (rule map_cong) (auto simp: rows)
  show ?thesis
    by (cases "ItemUpdate_title item_in"; cases "ItemUpdate_description item_in")
       (simp_all add: update_item_def first_def select_owned_own [OF assms] m Let_def)
qed

theorem update_item_partial_witness:
  "wf_db example_db \<and> owned_by example_db item_1 user_bob
   \<and> (\<exists>item' db'.
         update_item example_db (Item_id item_1)
           \<lparr>ItemUpdate_title = None, ItemUpdate_description = Some ''now described''\<rparr>
           (User_username user_bob) = (Some item', db')
       \<and> items db' = map (\<lambda>row. if row = item_1 then item' else row) (items example_db)
       \<and> users db' = users example_db
       \<and> Item_id item' = Item_id item_1
       \<and> Item_owner_id item' = Item_owner_id item_1
       \<and> Item_title item' = Item_title item_1
       \<and> Item_description item' = Some ''now described'')"
  using update_item_partial [OF wf_example_db item_1_owned_by_bob,
          of "\<lparr>ItemUpdate_title = None, ItemUpdate_description = Some ''now described''\<rparr>"]
    wf_example_db item_1_owned_by_bob
  by simp

section \<open>Creating an item\<close>

lemma next_id_fresh: "next_id ids \<notin> set ids"
proof -
  have "x \<le> foldr max ids 0" if "x \<in> set ids" for x
    using that by (induction ids) auto
  then show ?thesis by (fastforce simp: next_id_def)
qed

text \<open>
  Claim C8. When the owner's username is not the username of a stored user, create_item
  raises the owner-not-found error and the tables are unchanged. When it is, create_item
  appends one row and returns it: its owner reference is the id of that user, its id is
  new, and its title and description are the ones given.
\<close>

theorem create_item_owner:
  "(get_user_by_username db owner_username = None \<longrightarrow>
      create_item db item_in owner_username = (Inl OwnerNotFound, db)) \<and>
   (\<forall>owner. get_user_by_username db owner_username = Some owner \<longrightarrow>
      (\<exists>item. create_item db item_in owner_username
                 = (Inr item, db\<lparr>items := items db @ [item]\<rparr>)
             \<and> Item_owner_id item = User_id owner
             \<and> User_username owner = owner_username
             \<and> owner \<in> set (users db)
             \<and> Item_id item \<notin> Item_id ` set (items db)
             \<and> Item_title item = ItemCreate_title item_in
             \<and> Item_description item = ItemCreate_description item_in))"
proof (intro conjI impI allI)
  assume "get_user_by_username db owner_username = None"
  then show "create_item db item_in owner_username = (Inl OwnerNotFound, db)"
    by (simp add: create_item_def)
next
  fix owner
  assume o: "get_user_by_username db owner_username = Some owner"
  then have "User_username owner = owner_username" "owner \<in> set (users db)"
    by (auto simp: get_user_by_username_def find_Some_iff)
  moreover have "next_id (map Item_id (items db)) \<notin> Item_id ` set (items db)"
    using next_id_fresh [of "map Item_id (items db)"] by simp
  ultimately show "\<exists>item. create_item db item_in owner_username
                 = (Inr item, db\<lparr>items := items db @ [item]\<rparr>)
             \<and> Item_owner_id item = User_id owner
             \<and> User_username owner = owner_username
             \<and> owner \<in> set (users db)
             \<and> Item_id item \<notin> Item_id ` set (items db)
             \<and> Item_title item = ItemCreate_title item_in
             \<and> Item_description item = ItemCreate_description item_in"
    using o by (simp add: create_item_def Let_def)
qed

theorem create_item_owner_witness:
  "get_user_by_username empty_db ''alice'' = None
   \<and> create_item empty_db \<lparr>ItemCreate_title = ''New item'', ItemCreate_description = None\<rparr>
        ''alice'' = (Inl OwnerNotFound, empty_db)
   \<and> get_user_by_username example_db ''bob'' = Some user_bob
   \<and> (\<exists>item. create_item example_db
                 \<lparr>ItemCreate_title = ''New item'', ItemCreate_description = None\<rparr> ''bob''
               = (Inr item, example_db\<lparr>items := items example_db @ [item]\<rparr>)
             \<and> Item_owner_id item = User_id user_bob)"
proof -
  have h1: "get_user_by_username empty_db ''alice'' = None"
    by (simp add: get_user_by_username_def empty_db_def)
  have h2: "get_user_by_username example_db ''bob'' = Some user_bob"
    by (simp add: get_user_by_username_def example_db_def user_bob_def)
  from create_item_owner [of empty_db "''alice''"] h1
  have c1: "create_item empty_db \<lparr>ItemCreate_title = ''New item'', ItemCreate_description = None\<rparr>
        ''alice'' = (Inl OwnerNotFound, empty_db)"
    by blast
  from create_item_owner [of example_db "''bob''"
      "\<lparr>ItemCreate_title = ''New item'', ItemCreate_description = None\<rparr>"] h2
  have c2: "\<exists>item. create_item example_db
                 \<lparr>ItemCreate_title = ''New item'', ItemCreate_description = None\<rparr> ''bob''
               = (Inr item, example_db\<lparr>items := items example_db @ [item]\<rparr>)
             \<and> Item_owner_id item = User_id user_bob"
    by blast
  from h1 c1 h2 c2 show ?thesis by blast
qed

section \<open>Integrity is kept by every operation\<close>

lemma wf_empty_db: "wf_db empty_db"
  by (simp add: wf_db_def empty_db_def)

lemma create_user_wf:
  assumes "wf_db db" and "create_user db user_in = (r, db')"
  shows "wf_db db'"
proof (cases "list_ex (\<lambda>u. User_username u = UserCreate_username user_in) (users db)")
  case True
  with assms show ?thesis by (simp add: create_user_def Let_def)
next
  case False
  then have name: "UserCreate_username user_in \<notin> User_username ` set (users db)"
    by (auto simp: list_ex_iff)
  have key: "next_id (map User_id (users db)) \<notin> User_id ` set (users db)"
    using next_id_fresh [of "map User_id (users db)"] by simp
  from False assms(2) have "db' = db\<lparr>users := users db @
      [\<lparr>User_id = next_id (map User_id (users db)),
        User_username = UserCreate_username user_in,
        User_full_name = UserCreate_full_name user_in,
        User_hashed_password = fake_hash_password (UserCreate_password user_in)\<rparr>]\<rparr>"
    by (simp add: create_user_def Let_def)
  with assms(1) name key show ?thesis by (simp add: wf_db_def)
qed

lemma create_item_wf:
  assumes "wf_db db" and "create_item db item_in owner_username = (r, db')"
  shows "wf_db db'"
proof -
  have "next_id (map Item_id (items db)) \<notin> Item_id ` set (items db)"
    using next_id_fresh [of "map Item_id (items db)"] by simp
  with assms show ?thesis
    by (auto simp: create_item_def wf_db_def Let_def split: option.splits)
qed

lemma update_item_keeps_ids:
  "map Item_id (map (\<lambda>row. if P row then row\<lparr>Item_title := t, Item_description := d\<rparr>
                               else row) xs) = map Item_id xs"
  by (induction xs) auto

lemma update_item_wf:
  assumes "wf_db db" and "update_item db item_id item_in owner_username = (r, db')"
  shows "wf_db db'"
proof (cases "first (select_owned db item_id owner_username)")
  case None
  with assms show ?thesis by (simp add: update_item_def)
next
  case (Some item)
  with assms(2) obtain t d where
    "db' = db\<lparr>items := map (\<lambda>row. if Item_id row = Item_id item
                                     then row\<lparr>Item_title := t, Item_description := d\<rparr>
                                     else row) (items db)\<rparr>"
    by (auto simp: update_item_def Let_def)
  then have "map Item_id (items db') = map Item_id (items db)" "users db' = users db"
    by (simp_all add: update_item_keeps_ids del: map_map)
  with assms(1) show ?thesis by (simp add: wf_db_def)
qed

lemma delete_item_wf:
  assumes "wf_db db" and "delete_item db item_id owner_username = (r, db')"
  shows "wf_db db'"
  using assms
  by (auto simp: delete_item_def wf_db_def distinct_map_filter split: option.splits)

section \<open>Search terms and sort fields\<close>

text \<open>
  What the filter and the sort-field guard do on the inputs they were written for: a
  search term without \<open>%\<close> and \<open>_\<close> selects by case-insensitive substring, and a
  name that is no attribute of the class sorts by \<open>id\<close>.
\<close>

lemma lower_char_cases:
  "lower_char c = c \<or> (c \<in> set ascii_uppercase \<and> lower_char c \<in> set ascii_lowercase)"
proof (cases "map_of (zip ascii_uppercase ascii_lowercase) c")
  case None
  then show ?thesis by (simp add: lower_char_def)
next
  case (Some l)
  then have "(c, l) \<in> set (zip ascii_uppercase ascii_lowercase)"
    by (rule map_of_SomeD)
  then have "c \<in> set ascii_uppercase" "l \<in> set ascii_lowercase"
    by (auto dest: set_zip_leftD set_zip_rightD)
  with Some show ?thesis by (simp add: lower_char_def)
qed

lemma lower_char_fixed:
  "c \<notin> set ascii_uppercase \<Longrightarrow> lower_char c = c"
  using lower_char_cases [of c] by auto

lemma lowercase_not_uppercase:
  "l \<in> set ascii_lowercase \<Longrightarrow> l \<notin> set ascii_uppercase"
  by (auto simp: ascii_lowercase_def ascii_uppercase_def)

lemma lower_char_idem: "lower_char (lower_char c) = lower_char c"
  using lower_char_cases [of c] lowercase_not_uppercase lower_char_fixed by metis

lemma lower_idem: "lower (lower s) = lower s"
  by (simp add: lower_def lower_char_idem)

lemma lower_char_wildcard: "wildcard (lower_char c) = wildcard c"
proof -
  have "\<not> wildcard l" if "l \<in> set ascii_lowercase" for l
    using that by (auto simp: wildcard_def ascii_lowercase_def)
  moreover have "\<not> wildcard u" if "u \<in> set ascii_uppercase" for u
    using that by (auto simp: wildcard_def ascii_uppercase_def)
  ultimately show ?thesis using lower_char_cases [of c] by metis
qed

lemma lower_char_percent: "lower_char CHR ''%'' = CHR ''%''"
  by (rule lower_char_fixed) (simp add: ascii_uppercase_def)

lemma like_percent: "like ''%'' s"
  by (induction s) auto

lemma like_plain_tail:
  "\<not> list_ex wildcard p \<Longrightarrow> like (p @ ''%'') s = prefix (lower p) (lower s)"
proof (induction p arbitrary: s)
  case Nil
  then show ?case by (simp add: like_percent lower_def)
next
  case (Cons a p)
  then show ?case
    by (cases s) (auto simp: lower_def wildcard_def)
qed

lemma like_surround:
  "\<not> list_ex wildcard p \<Longrightarrow> like (CHR ''%'' # p @ ''%'') s = contains (lower s) (lower p)"
proof (induction s)
  case Nil
  then show ?case using like_plain_tail [of p "[]"] by (simp add: lower_def)
next
  case (Cons c cs)
  then show ?case using like_plain_tail [of p "c # cs"] by (simp add: lower_def)
qed

lemma ilike_substring:
  assumes "\<not> list_ex wildcard q"
  shows "ilike (Some s) (''%'' @ q @ ''%'') = contains (lower s) (lower q)"
proof -
  have "\<not> list_ex wildcard (lower q)"
    using assms by (simp add: lower_def list_ex_iff lower_char_wildcard)
  then have "like (CHR ''%'' # lower q @ ''%'') (lower s) = contains (lower (lower s)) (lower (lower q))"
    by (rule like_surround)
  moreover have "lower (''%'' @ q @ ''%'') = CHR ''%'' # lower q @ ''%''"
    by (simp add: lower_def lower_char_percent)
  ultimately show ?thesis by (simp add: ilike_def lower_idem)
qed

lemma search_filter_substring:
  assumes "q \<noteq> []" and "\<not> list_ex wildcard q"
  shows "search_filter (Some q) item =
           (contains (lower (Item_title item)) (lower q) \<or>
            (case Item_description item of
               None \<Rightarrow> False | Some d \<Rightarrow> contains (lower d) (lower q)))"
proof (cases "Item_description item")
  case None
  with assms show ?thesis
    by (simp add: search_filter_def Let_def ilike_substring [simplified]) (simp add: ilike_def)
next
  case (Some d)
  with assms show ?thesis
    by (simp add: search_filter_def Let_def ilike_substring [simplified])
qed

lemma get_items_unknown_sort_by:
  assumes "Item_getattr inherited name = None"
  shows "get_items inherited db q limit offset (Some name) order
       = get_items inherited db q limit offset (Some ''id'') order"
proof -
  have "sort_col inherited (Some ''id'') = Column Col_id"
    by (simp add: sort_col_def Item_getattr_def Item_class_body_def)
  moreover from assms have "sort_col inherited (Some name) = Column Col_id"
    by (simp add: sort_col_def)
  ultimately show ?thesis by (simp add: get_items_def)
qed

lemma get_items_returns:
  assumes "sort_col inherited sort_by \<noteq> Other"
  shows "\<exists>res. get_items inherited db q limit offset sort_by order = Inr res"
  using assms by (cases "sort_col inherited sort_by") (simp_all add: get_items_def Let_def)

lemma contains_iff: "contains s sub \<longleftrightarrow> (\<exists>pre post. s = pre @ sub @ post)"
proof (induction s)
  case Nil
  then show ?case by auto
next
  case (Cons c cs)
  show ?case
  proof
    assume "contains (c # cs) sub"
    then consider "prefix sub (c # cs)" | "contains cs sub" by auto
    then show "\<exists>pre post. c # cs = pre @ sub @ post"
    proof cases
      case 1
      then obtain post where "c # cs = sub @ post" by (auto simp: prefix_def)
      then have "c # cs = [] @ sub @ post" by simp
      then show ?thesis by blast
    next
      case 2
      with Cons obtain pre post where "cs = pre @ sub @ post" by blast
      then have "c # cs = (c # pre) @ sub @ post" by simp
      then show ?thesis by blast
    qed
  next
    assume "\<exists>pre post. c # cs = pre @ sub @ post"
    then obtain pre post where e: "c # cs = pre @ sub @ post" by blast
    show "contains (c # cs) sub"
    proof (cases pre)
      case Nil
      with e have "prefix sub (c # cs)" by (simp add: prefix_def)
      then show ?thesis by simp
    next
      case (Cons a pre')
      with e have "cs = pre' @ sub @ post" by simp
      with Cons.IH show ?thesis by auto
    qed
  qed
qed

section \<open>The list query\<close>

text \<open>
  Claim C6. Whenever get_items returns, its total is the number of items that pass the
  search filter, counted on the whole table; with any other limit and offset (and the
  same search term, sort field and direction) it returns as well, with the same total.
\<close>

theorem total_ignores_page:
  assumes "get_items inherited db q limit offset sort_by order = Inr (page, n)"
  shows "n = length (filter (search_filter q) (items db))
       \<and> (\<exists>page'. get_items inherited db q limit' offset' sort_by order = Inr (page', n))"
  using assms by (auto simp: get_items_def Let_def split: sum.splits)

theorem total_ignores_page_witness:
  "get_items [] example_db (Some ''widget'') 10 0 (Some ''id'') (Some ''asc'') = Inr ([item_2], 1)
   \<and> 1 = length (filter (search_filter (Some ''widget'')) (items example_db))
   \<and> (\<exists>page'. get_items [] example_db (Some ''widget'') 1 5 (Some ''id'') (Some ''asc'')
                = Inr (page', 1))"
proof -
  have h: "get_items [] example_db (Some ''widget'') 10 0 (Some ''id'') (Some ''asc'')
             = Inr ([item_2], 1)"
    by code_simp
  from total_ignores_page [OF h, of 1 5] h show ?thesis by blast
qed

text \<open>
  Claim C4, at the input where the code departs from it. \<open>__tablename__\<close> is an
  attribute of the class \<open>Item\<close>, so the \<open>hasattr\<close> guard lets it through, and it is
  a plain string, not a column: the query raises instead of falling back to \<open>id\<close>,
  whatever the tables, the search term, the page and the direction are. With
  \<open>sort_by = "id"\<close> the same call returns.
\<close>

theorem order_by_plain_attribute_raises:
  "get_items inherited db q limit offset (Some ''__tablename__'') order = Inl OrderByError
   \<and> (\<exists>res. get_items inherited db q limit offset (Some ''id'') order = Inr res)"
  by (simp add: get_items_def sort_col_def Item_getattr_def Item_class_body_def Let_def)

text \<open>
  Claim C5, at the input where the code departs from it. The search term \<open>a_c\<close> does
  not occur in the title \<open>abc\<close> of item 1, which has no description, and yet the
  item is returned: the term is put into the LIKE pattern as it is, and its \<open>_\<close>
  matches any character.
\<close>

theorem search_term_is_like_pattern:
  "\<not> contains (lower (Item_title item_1)) (lower ''a_c'')
   \<and> Item_description item_1 = None
   \<and> get_items [] example_db (Some ''a_c'') 10 0 (Some ''id'') (Some ''asc'') = Inr ([item_1], 1)"
  by code_simp

section \<open>Title constraints\<close>

text \<open>create_item stores the title of a validated \<open>ItemCreate\<close>, so it keeps the constraints.\<close>

lemma create_item_titles_ok:
  assumes "ItemCreate_valid item_in" and "titles_ok db"
    and "create_item db item_in owner_username = (r, db')"
  shows "titles_ok db'"
  using assms
  by (auto simp: create_item_def titles_ok_def ItemCreate_valid_def Let_def split: option.splits)

text \<open>
  Claim C3, at the input where the code departs from it. In a database whose titles all
  meet the constraints, the owner of item 1 sends a patch with the title
  \<open>Nice BadWord\<close>. \<open>ItemUpdate\<close> accepts it, since it checks the length only, and
  update_item stores it: the stored title contains the banned word.
\<close>

theorem update_item_stores_banned_title:
  "wf_db example_db \<and> titles_ok example_db \<and> owned_by example_db item_1 user_bob
   \<and> ItemUpdate_valid banned_patch
   \<and> update_item example_db 1 banned_patch ''bob''
       = (Some (item_1\<lparr>Item_title := ''Nice BadWord''\<rparr>),
          example_db\<lparr>items := [item_1\<lparr>Item_title := ''Nice BadWord''\<rparr>, item_2]\<rparr>)
   \<and> \<not> no_banned_words ''Nice BadWord''
   \<and> \<not> titles_ok (example_db\<lparr>items := [item_1\<lparr>Item_title := ''Nice BadWord''\<rparr>, item_2]\<rparr>)"
  by code_simp

end
